theory Spec2Isabelle
  imports Complex_Main
begin

section \<open>Go strings and runes\<close>

text \<open>
  A Go \<^verbatim>\<open>string\<close> is a sequence of bytes, here a \<^typ>\<open>string\<close> (a list of 8-bit
  characters). A \<^verbatim>\<open>rune\<close> is a code point; the conversions \<^verbatim>\<open>[]rune(s)\<close> and
  \<^verbatim>\<open>string(rs)\<close> of the source decode and encode UTF-8. Every byte that does not start
  a well-formed sequence decodes to U+FFFD and consumes one byte; a rune that is a surrogate
  or lies above U+10FFFF encodes as U+FFFD. Runes produced by \<^verbatim>\<open>[]rune(s)\<close> are never
  negative, so a rune is a natural number here.
\<close>

type_synonym rune = nat

definition RuneError :: rune where
  "RuneError = 0xFFFD"

definition cont_byte :: "nat \<Rightarrow> bool" where
  "cont_byte b \<longleftrightarrow> 0x80 \<le> b \<and> b \<le> 0xBF"

fun decode_utf8 :: "nat list \<Rightarrow> rune list" where
  "decode_utf8 [] = []"
| "decode_utf8 (s0 # bs) =
     (if s0 < 0x80 then s0 # decode_utf8 bs
      else if 0xC2 \<le> s0 \<and> s0 \<le> 0xDF then
        (case bs of
           s1 # bs1 \<Rightarrow>
             if cont_byte s1
             then ((s0 - 0xC0) * 64 + (s1 - 0x80)) # decode_utf8 bs1
             else RuneError # decode_utf8 bs
         | _ \<Rightarrow> RuneError # decode_utf8 bs)
      else if 0xE0 \<le> s0 \<and> s0 \<le> 0xEF then
        (case bs of
           s1 # s2 # bs2 \<Rightarrow>
             if (if s0 = 0xE0 then 0xA0 else 0x80) \<le> s1
                \<and> s1 \<le> (if s0 = 0xED then 0x9F else 0xBF) \<and> cont_byte s2
             then ((s0 - 0xE0) * 4096 + (s1 - 0x80) * 64 + (s2 - 0x80)) # decode_utf8 bs2
             else RuneError # decode_utf8 bs
         | _ \<Rightarrow> RuneError # decode_utf8 bs)
      else if 0xF0 \<le> s0 \<and> s0 \<le> 0xF4 then
        (case bs of
           s1 # s2 # s3 # bs3 \<Rightarrow>
             if (if s0 = 0xF0 then 0x90 else 0x80) \<le> s1
                \<and> s1 \<le> (if s0 = 0xF4 then 0x8F else 0xBF) \<and> cont_byte s2 \<and> cont_byte s3
             then ((s0 - 0xF0) * 262144 + (s1 - 0x80) * 4096 + (s2 - 0x80) * 64 + (s3 - 0x80))
                  # decode_utf8 bs3
             else RuneError # decode_utf8 bs
         | _ \<Rightarrow> RuneError # decode_utf8 bs)
      else RuneError # decode_utf8 bs)"

definition encode_rune :: "rune \<Rightarrow> nat list" where
  "encode_rune r =
     (if r \<le> 0x7F then [r]
      else if r \<le> 0x7FF then [0xC0 + r div 64, 0x80 + r mod 64]
      else if r > 0x10FFFF \<or> (0xD800 \<le> r \<and> r \<le> 0xDFFF) then [0xEF, 0xBF, 0xBD]
      else if r \<le> 0xFFFF then
        [0xE0 + r div 4096, 0x80 + (r div 64) mod 64, 0x80 + r mod 64]
      else [0xF0 + r div 262144, 0x80 + (r div 4096) mod 64,
            0x80 + (r div 64) mod 64, 0x80 + r mod 64])"

text \<open>\<^verbatim>\<open>[]rune(s)\<close>\<close>

definition runes_of_string :: "string \<Rightarrow> rune list" where
  "runes_of_string s = decode_utf8 (map of_char s)"

text \<open>\<^verbatim>\<open>string(rs)\<close>\<close>

definition string_of_runes :: "rune list \<Rightarrow> string" where
  "string_of_runes rs = map char_of (concat (map encode_rune rs))"

text \<open>A Unicode scalar value: a code point up to U+10FFFF that is not a surrogate.\<close>

definition scalar_value :: "rune \<Rightarrow> bool" where
  "scalar_value r \<longleftrightarrow> r < 0xD800 \<or> (0xE000 \<le> r \<and> r \<le> 0x10FFFF)"

text \<open>The slice expression \<^verbatim>\<open>xs[i:j]\<close>, for \<open>i \<le> j \<le> length xs\<close>.\<close>

definition slice :: "'a list \<Rightarrow> nat \<Rightarrow> nat \<Rightarrow> 'a list" where
  "slice xs i j = take (j - i) (drop i xs)"


section \<open>Data model\<close>

definition StreamResponseInterval :: nat where
  "StreamResponseInterval = 50"

record Message =
  Role :: string
  Content :: string

record ChatCompletionRequest =
  Model :: string
  Messages :: "Message list"
  Stream :: bool

record Choice =
  Index :: int
  Message :: Message

record ChatCompletionResponse =
  ID :: string
  Object :: string
  Created :: int
  Model :: string
  Choices :: "Choice list"

record DeltaMessage =
  Role :: string
  Content :: string

text \<open>\<open>LogProbs\<close> has the interface type; the handlers only ever store \<^verbatim>\<open>nil\<close>.\<close>

record ChunkChoice =
  Index :: int
  Delta :: DeltaMessage
  LogProbs :: "string option"
  FinishReason :: string

record ChatCompletionChunk =
  ID :: string
  Object :: string
  Created :: int
  Model :: string
  SystemFingerprint :: string
  Choices :: "ChunkChoice list"


section \<open>The environment of a handler\<close>

text \<open>
  What a write puts on the wire: \<open>Data c\<close> stands for the bytes
  \<^verbatim>\<open>"data: " + toJSON(c) + "\n\n"\<close> of \<^verbatim>\<open>writeChunk\<close>, \<open>Literal s\<close> for the bytes \<open>s\<close>.
  The JSON encoder is library code and stays symbolic.
\<close>

datatype payload = Data ChatCompletionChunk | Literal string

text \<open>
  The effects of a handler, in the order in which they happen: the calls on the response
  writer (\<^verbatim>\<open>w.Header().Set\<close>, \<^verbatim>\<open>http.Error\<close>, \<^verbatim>\<open>w.Write\<close>, \<^verbatim>\<open>Flush\<close>,
  \<^verbatim>\<open>json.NewEncoder(w).Encode\<close>), \<^verbatim>\<open>time.Sleep\<close> (in milliseconds), the two
  \<^verbatim>\<open>slog.Info\<close> records and the deferred \<^verbatim>\<open>gzipReader.Close\<close>.
\<close>

datatype event =
    SetHeader string string
  | HttpError string nat
  | Write payload
  | Flush
  | Encode ChatCompletionResponse
  | Sleep nat
  | LogRequest ChatCompletionRequest bool
  | LogChunk ChatCompletionChunk
  | CloseGzip

text \<open>
  The state a handler runs in: \<open>tape\<close> lists the values that the global
  \<^verbatim>\<open>math/rand\<close> source delivers to the successive calls of \<^verbatim>\<open>rand.Intn\<close>, \<open>unix_now\<close> is
  what \<^verbatim>\<open>time.Now().Unix()\<close> returns, \<open>is_flusher\<close> tells whether the response writer
  implements \<^verbatim>\<open>http.Flusher\<close>, and \<open>trace\<close> collects the effects.
\<close>

record world =
  tape :: "nat list"
  unix_now :: int
  is_flusher :: bool
  trace :: "event list"

definition emit :: "event \<Rightarrow> world \<Rightarrow> world" where
  "emit e w = w\<lparr>trace := trace w @ [e]\<rparr>"

text \<open>
  \<^verbatim>\<open>rand.Intn(n)\<close> returns a value in \<open>[0, n)\<close>: the next value of the tape, reduced
  into that range; an exhausted tape delivers 0.
\<close>

definition Intn :: "nat \<Rightarrow> world \<Rightarrow> nat \<times> world" where
  "Intn n w =
     (case tape w of
        [] \<Rightarrow> (0, w)
      | x # xs \<Rightarrow> (x mod n, w\<lparr>tape := xs\<rparr>))"

text \<open>
  A request: its method, the value of \<^verbatim>\<open>r.Header.Get("Content-Encoding")\<close> and its body.
  A reader is the bytes it yields and whether reading them ends in an error instead of
  the end of the input.
\<close>

datatype reader = Reader string bool

record Request =
  Method :: string
  ContentEncoding :: string
  Body :: reader

text \<open>
  The two library calls that read the body are parameters: \<^verbatim>\<open>gzip.NewReader\<close> fails or
  returns the reader of the decompressed bytes, \<^verbatim>\<open>json.NewDecoder(body).Decode(&req)\<close>
  fails or fills the request.
\<close>

record stdlib =
  gzip_NewReader :: "reader \<Rightarrow> reader option"
  json_Decode :: "reader \<Rightarrow> ChatCompletionRequest option"


section \<open>Helpers\<close>

definition generateResponse :: "Message list \<Rightarrow> string" where
  "generateResponse messages =
     ''who are you? and what are you doing here? and what is your purpose?''"

text \<open>
  \<^verbatim>\<open>randomString(n)\<close> fills a slice of \<open>n\<close> runes from left to right, each with the letter
  at the index that \<^verbatim>\<open>rand.Intn(len(letters))\<close> delivers, and converts it to a string.
\<close>

definition letters :: "rune list" where
  "letters = runes_of_string
     ''abcdefghijklmnopqrstuvwxyzABCDEFGHIJKLMNOPQRSTUVWXYZ0123456789''"

fun randomRunes :: "nat \<Rightarrow> world \<Rightarrow> rune list \<times> world" where
  "randomRunes 0 w = ([], w)"
| "randomRunes (Suc n) w =
     (let (k, w1) = Intn (length letters) w;
          (b, w2) = randomRunes n w1
      in (letters ! k # b, w2))"

definition randomString :: "nat \<Rightarrow> world \<Rightarrow> string \<times> world" where
  "randomString n w = (let (b, w1) = randomRunes n w in (string_of_runes b, w1))"

text \<open>
  \<^verbatim>\<open>writeChunk\<close> writes the frame, logs the chunk and flushes if the writer is a flusher.
\<close>

definition writeChunk :: "world \<Rightarrow> ChatCompletionChunk \<Rightarrow> world" where
  "writeChunk w chunk =
     (let w1 = emit (Write (Data chunk)) w;
          w2 = emit (LogChunk chunk) w1
      in if is_flusher w2 then emit Flush w2 else w2)"


section \<open>The responders\<close>

definition handleNonStreamingResponse :: "world \<Rightarrow> ChatCompletionRequest \<Rightarrow> world" where
  "handleNonStreamingResponse w req =
     (let (suffix, w1) = randomString 10 w;
          response = \<lparr>ChatCompletionResponse.ID = ''chatcmpl-'' @ suffix,
                      Object = ''chat.completion'',
                      Created = unix_now w1,
                      Model = ChatCompletionRequest.Model req,
                      Choices = [\<lparr>Choice.Index = 0,
                                  Message = \<lparr>Message.Role = ''assistant'',
                                              Content = generateResponse (Messages req)\<rparr>\<rparr>]\<rparr>;
          w2 = emit (SetHeader ''Content-Type'' ''application/json'') w1
      in emit (Encode response) w2)"

text \<open>
  The loop \<^verbatim>\<open>for i := 0; i < len(runes); i += 2\<close> of \<^verbatim>\<open>handleStreamingResponse\<close>.
\<close>

function streamLoop ::
  "string \<Rightarrow> int \<Rightarrow> ChatCompletionRequest \<Rightarrow> rune list \<Rightarrow> nat \<Rightarrow> world \<Rightarrow> world" where
  "streamLoop id' created req runes i w =
     (if i < length runes then
        (let content = (if i + 1 < length runes
                        then string_of_runes (slice runes i (i + 2))
                        else string_of_runes (drop i runes));
             chunk = \<lparr>ID = id',
                      Object = ''chat.completion.chunk'',
                      Created = created,
                      Model = ChatCompletionRequest.Model req,
                      SystemFingerprint = ''fp_44709d6fcb'',
                      Choices = [\<lparr>Index = 0,
                                  Delta = \<lparr>Role = '''', Content = content\<rparr>,
                                  LogProbs = None,
                                  FinishReason = ''''\<rparr>]\<rparr>;
             w1 = writeChunk w chunk;
             w2 = emit (Sleep StreamResponseInterval) w1
         in streamLoop id' created req runes (i + 2) w2)
      else w)"
  by pat_completeness auto
termination
  by (relation "measure (\<lambda>(id', created, req, runes, i, w). length runes - i)") auto

declare streamLoop.simps [simp del]

text \<open>
  Lines 154 to 243 of \<^verbatim>\<open>handleStreamingResponse\<close>, with the reply as a parameter.
\<close>

definition streamReply :: "world \<Rightarrow> ChatCompletionRequest \<Rightarrow> string \<Rightarrow> world" where
  "streamReply w req response =
     (let (suffix, w1) = randomString 10 w;
          id' = ''chatcmpl-'' @ suffix;
          created = unix_now w1;
          initialChunk = \<lparr>ID = id',
                          Object = ''chat.completion.chunk'',
                          Created = created,
                          Model = ChatCompletionRequest.Model req,
                          SystemFingerprint = ''fp_44709d6fcb'',
                          Choices = [\<lparr>Index = 0,
                                      Delta = \<lparr>Role = ''assistant'', Content = ''''\<rparr>,
                                      LogProbs = None,
                                      FinishReason = ''''\<rparr>]\<rparr>;
          w2 = writeChunk w1 initialChunk;
          runes = runes_of_string response;
          w3 = streamLoop id' created req runes 0 w2;
          finalChunk = \<lparr>ID = id',
                        Object = ''chat.completion.chunk'',
                        Created = created,
                        Model = ChatCompletionRequest.Model req,
                        SystemFingerprint = ''fp_44709d6fcb'',
                        Choices = [\<lparr>Index = 0,
                                    Delta = \<lparr>Role = '''', Content = ''''\<rparr>,
                                    LogProbs = None,
                                    FinishReason = ''stop''\<rparr>]\<rparr>;
          w4 = writeChunk w3 finalChunk
      in emit (Write (Literal (''data: [DONE]'' @ [CHR 0x0A, CHR 0x0A]))) w4)"

definition handleStreamingResponse :: "world \<Rightarrow> ChatCompletionRequest \<Rightarrow> world" where
  "handleStreamingResponse w req =
     (let w1 = emit (SetHeader ''Content-Type'' ''text/event-stream'') w;
          w2 = emit (SetHeader ''Cache-Control'' ''no-cache'') w1;
          w3 = emit (SetHeader ''Connection'' ''keep-alive'') w2;
          response = generateResponse (Messages req)
      in streamReply w3 req response)"


section \<open>The handlers\<close>

text \<open>
  Lines 105 to 121 of \<^verbatim>\<open>handleChatCompletion\<close>: what it does once the body reader is
  settled.
\<close>

definition processRequest :: "stdlib \<Rightarrow> world \<Rightarrow> Request \<Rightarrow> world" where
  "processRequest lib w r =
     (if Method r \<noteq> ''POST'' then emit (HttpError ''Method not allowed'' 405) w
      else
        (case json_Decode lib (Body r) of
           None \<Rightarrow> emit (HttpError ''Invalid request body'' 400) w
         | Some req \<Rightarrow>
             (let w1 = emit (LogRequest req (Stream req)) w
              in if Stream req then handleStreamingResponse w1 req
                 else handleNonStreamingResponse w1 req)))"

text \<open>
  The deferred \<^verbatim>\<open>gzipReader.Close()\<close> runs when the handler returns, on every path
  after the reader was created.
\<close>

definition handleChatCompletion :: "stdlib \<Rightarrow> world \<Rightarrow> Request \<Rightarrow> world" where
  "handleChatCompletion lib w r =
     (if ContentEncoding r = ''gzip'' then
        (case gzip_NewReader lib (Body r) of
           None \<Rightarrow> emit (HttpError ''Failed to decompress request body'' 400) w
         | Some gzipReader \<Rightarrow>
             emit CloseGzip (processRequest lib w (r\<lparr>Body := gzipReader\<rparr>)))
      else processRequest lib w r)"

definition handleRandomSleep :: "stdlib \<Rightarrow> world \<Rightarrow> Request \<Rightarrow> world" where
  "handleRandomSleep lib w r =
     (let (d, w1) = Intn 5000 w;
          w2 = emit (Sleep d) w1
      in handleChatCompletion lib w2 r)"

definition handleRandomFail :: "stdlib \<Rightarrow> world \<Rightarrow> Request \<Rightarrow> world" where
  "handleRandomFail lib w r =
     (let (k, w1) = Intn 10 w
      in if k < 5 then emit (HttpError ''Random error'' 500) w1
         else handleChatCompletion lib w1 r)"

definition handleRandom :: "stdlib \<Rightarrow> world \<Rightarrow> Request \<Rightarrow> world" where
  "handleRandom lib w r =
     (let (k, w1) = Intn 10 w
      in if k < 5 then handleRandomFail lib w1 r
         else
           (let (d, w2) = Intn 5000 w1;
                w3 = emit (Sleep d) w2
            in handleChatCompletion lib w3 r))"


section \<open>Observing a run\<close>

text \<open>The effects that a handler adds to the trace of the world it starts in.\<close>

definition added :: "world \<Rightarrow> world \<Rightarrow> event list" where
  "added w w' = drop (length (trace w)) (trace w')"

text \<open>The frames of a trace: the chunks that \<^verbatim>\<open>writeChunk\<close> wrote, in order.\<close>

fun frames :: "event list \<Rightarrow> ChatCompletionChunk list" where
  "frames [] = []"
| "frames (Write (Data c) # es) = c # frames es"
| "frames (e # es) = frames es"

text \<open>The envelopes of a trace: the responses encoded as the whole body.\<close>

fun envelopes :: "event list \<Rightarrow> ChatCompletionResponse list" where
  "envelopes [] = []"
| "envelopes (Encode e # es) = e # envelopes es"
| "envelopes (e # es) = envelopes es"

text \<open>The calls on the response writer, without the sleeps, the log and the close.\<close>

fun on_writer :: "event \<Rightarrow> bool" where
  "on_writer (SetHeader k v) = True"
| "on_writer (HttpError msg code) = True"
| "on_writer (Write p) = True"
| "on_writer Flush = True"
| "on_writer (Encode e) = True"
| "on_writer e = False"

definition writer_calls :: "event list \<Rightarrow> event list" where
  "writer_calls es = filter on_writer es"

text \<open>
  Every chunk the handlers build has one choice; the role, content and finish reason of a
  frame are those of its choices.
\<close>

definition delta_role :: "ChatCompletionChunk \<Rightarrow> string" where
  "delta_role c = concat (map (\<lambda>ch. Role (Delta ch)) (Choices c))"

definition delta_content :: "ChatCompletionChunk \<Rightarrow> string" where
  "delta_content c = concat (map (\<lambda>ch. Content (Delta ch)) (Choices c))"

definition finish_reason :: "ChatCompletionChunk \<Rightarrow> string" where
  "finish_reason c = concat (map FinishReason (Choices c))"

text \<open>The frames of one streamed reply.\<close>

definition streamed :: "world \<Rightarrow> ChatCompletionRequest \<Rightarrow> string \<Rightarrow> ChatCompletionChunk list" where
  "streamed w req response = frames (added w (streamReply w req response))"


section \<open>What the claims speak of\<close>

subsection \<open>Kinds of frames\<close>

definition role_only :: "ChatCompletionChunk \<Rightarrow> bool" where
  "role_only c \<longleftrightarrow> delta_role c \<noteq> '''' \<and> delta_content c = '''' \<and> finish_reason c = ''''"

definition content_bearing :: "ChatCompletionChunk \<Rightarrow> bool" where
  "content_bearing c \<longleftrightarrow> delta_content c \<noteq> ''''"

definition terminal :: "ChatCompletionChunk \<Rightarrow> bool" where
  "terminal c \<longleftrightarrow> finish_reason c \<noteq> ''''"

subsection \<open>Flushing\<close>

text \<open>
  In a sequence of calls on the response writer, every write is immediately followed by a
  flush.
\<close>

fun flushed_after_write :: "event list \<Rightarrow> bool" where
  "flushed_after_write [] = True"
| "flushed_after_write (Write p # es) =
     ((case es of Flush # es' \<Rightarrow> True | _ \<Rightarrow> False) \<and> flushed_after_write es)"
| "flushed_after_write (e # es) = flushed_after_write es"

subsection \<open>Decoding\<close>

text \<open>
  What lines 91 to 114 of \<^verbatim>\<open>handleChatCompletion\<close> make of the body of a request, the
  method left aside: the body is read through \<^verbatim>\<open>gzip.NewReader\<close> when the header says
  \<^verbatim>\<open>gzip\<close>, and decoded by the JSON decoder; \<open>None\<close> when either fails.
\<close>

definition decoded :: "stdlib \<Rightarrow> Request \<Rightarrow> ChatCompletionRequest option" where
  "decoded lib r =
     (if ContentEncoding r = ''gzip'' then
        (case gzip_NewReader lib (Body r) of
           None \<Rightarrow> None
         | Some gzipReader \<Rightarrow> json_Decode lib gzipReader)
      else json_Decode lib (Body r))"

subsection \<open>The outcomes of the combined fault injection\<close>

text \<open>
  A run of \<^verbatim>\<open>handleRandom\<close> ends in one of three ways, told apart by the first effect it
  adds: the injected error, the random sleep, or whatever \<^verbatim>\<open>handleChatCompletion\<close> does
  first (which is never a sleep and never the injected error).
\<close>

datatype outcome = HardFailure | DelayedDelegation | PlainDelegation

fun rand_all_outcome :: "event list \<Rightarrow> outcome" where
  "rand_all_outcome (HttpError msg code # es) =
     (if msg = ''Random error'' \<and> code = 500 then HardFailure else PlainDelegation)"
| "rand_all_outcome (Sleep d # es) = DelayedDelegation"
| "rand_all_outcome es = PlainDelegation"

text \<open>
  The run of \<^verbatim>\<open>handleRandom\<close> in which the random source delivers \<open>a\<close> and then \<open>b\<close>.
  The first value decides between the two branches of \<^verbatim>\<open>handleRandom\<close>; the second is
  the draw of \<^verbatim>\<open>handleRandomFail\<close> on the one branch and the duration of the sleep on the
  other, where it has no influence on the outcome.
\<close>

definition rand_all_run :: "stdlib \<Rightarrow> world \<Rightarrow> Request \<Rightarrow> nat \<times> nat \<Rightarrow> world" where
  "rand_all_run lib w r = (\<lambda>(a, b). handleRandom lib (w\<lparr>tape := a # b # tape w\<rparr>) r)"

text \<open>
  Two independent uniform draws of \<^verbatim>\<open>rand.Intn(10)\<close>: the hundred pairs, each as likely
  as any other. The probability of an outcome is the share of the pairs that lead to it.
\<close>

definition draws :: "(nat \<times> nat) list" where
  "draws = List.product [0..<10] [0..<10]"

definition rand_all_prob :: "stdlib \<Rightarrow> world \<Rightarrow> Request \<Rightarrow> outcome \<Rightarrow> real" where
  "rand_all_prob lib w r k =
     real (length (filter (\<lambda>ab. rand_all_outcome (added w (rand_all_run lib w r ab)) = k) draws))
     / real (length draws)"

subsection \<open>Sample inputs\<close>

definition example_world :: world where
  "example_world =
     \<lparr>tape = [3, 14, 15, 92, 65], unix_now = 1700000000, is_flusher = True, trace = []\<rparr>"

definition example_request :: ChatCompletionRequest where
  "example_request = \<lparr>ChatCompletionRequest.Model = '''', Messages = [], Stream = True\<rparr>"

definition sample_json :: string where
  \<open>sample_json = ''{"stream":true}''\<close>

definition sample_gzip :: string where
  "sample_gzip = [CHR 0x1F, CHR 0x8B, CHR 0x08]"

text \<open>
  A library in which one body, \<open>sample_gzip\<close>, is a gzip stream, of the bytes
  \<open>sample_json\<close>, and one body, \<open>sample_json\<close>, decodes, to the sample request.
\<close>

definition example_lib :: stdlib where
  "example_lib =
     \<lparr>gzip_NewReader =
        (\<lambda>b. if b = Reader sample_gzip False then Some (Reader sample_json False) else None),
      json_Decode =
        (\<lambda>b. if b = Reader sample_json False then Some example_request else None)\<rparr>"

definition get_request :: Request where
  "get_request = \<lparr>Method = ''GET'', ContentEncoding = '''', Body = Reader ''{'' False\<rparr>"

definition get_gzip_request :: Request where
  "get_gzip_request = \<lparr>Method = ''GET'', ContentEncoding = ''gzip'', Body = Reader ''{'' False\<rparr>"

definition gzip_request :: Request where
  "gzip_request =
     \<lparr>Method = ''POST'', ContentEncoding = ''gzip'', Body = Reader sample_gzip False\<rparr>"

definition plain_request :: Request where
  "plain_request =
     \<lparr>Method = ''POST'', ContentEncoding = '''', Body = Reader sample_json False\<rparr>"

definition bad_request :: Request where
  "bad_request = \<lparr>Method = ''POST'', ContentEncoding = '''', Body = Reader ''{'' False\<rparr>"


section \<open>Auxiliary definitions for the proofs\<close>

text \<open>The effects of one call of \<^verbatim>\<open>writeChunk\<close>.\<close>

definition chunk_events :: "bool \<Rightarrow> ChatCompletionChunk \<Rightarrow> event list" where
  "chunk_events fl c = Write (Data c) # LogChunk c # (if fl then [Flush] else [])"

text \<open>A list cut into groups of two, the last group of one when the length is odd.\<close>

fun pairs :: "'a list \<Rightarrow> 'a list list" where
  "pairs [] = []"
| "pairs [x] = [[x]]"
| "pairs (x # y # xs) = [x, y] # pairs xs"

text \<open>The three chunks that \<^verbatim>\<open>handleStreamingResponse\<close> builds.\<close>

definition initial_chunk :: "string \<Rightarrow> int \<Rightarrow> ChatCompletionRequest \<Rightarrow> ChatCompletionChunk" where
  "initial_chunk id' created req =
     \<lparr>ID = id', Object = ''chat.completion.chunk'', Created = created,
      Model = ChatCompletionRequest.Model req, SystemFingerprint = ''fp_44709d6fcb'',
      Choices = [\<lparr>Index = 0, Delta = \<lparr>Role = ''assistant'', Content = ''''\<rparr>,
                  LogProbs = None, FinishReason = ''''\<rparr>]\<rparr>"

definition content_chunk ::
  "string \<Rightarrow> int \<Rightarrow> ChatCompletionRequest \<Rightarrow> string \<Rightarrow> ChatCompletionChunk" where
  "content_chunk id' created req content =
     \<lparr>ID = id', Object = ''chat.completion.chunk'', Created = created,
      Model = ChatCompletionRequest.Model req, SystemFingerprint = ''fp_44709d6fcb'',
      Choices = [\<lparr>Index = 0, Delta = \<lparr>Role = '''', Content = content\<rparr>,
                  LogProbs = None, FinishReason = ''''\<rparr>]\<rparr>"

definition final_chunk :: "string \<Rightarrow> int \<Rightarrow> ChatCompletionRequest \<Rightarrow> ChatCompletionChunk" where
  "final_chunk id' created req =
     \<lparr>ID = id', Object = ''chat.completion.chunk'', Created = created,
      Model = ChatCompletionRequest.Model req, SystemFingerprint = ''fp_44709d6fcb'',
      Choices = [\<lparr>Index = 0, Delta = \<lparr>Role = '''', Content = ''''\<rparr>,
                  LogProbs = None, FinishReason = ''stop''\<rparr>]\<rparr>"

definition stream_id :: "world \<Rightarrow> string" where
  "stream_id w = ''chatcmpl-'' @ fst (randomString 10 w)"

definition done_frame :: event where
  "done_frame = Write (Literal (''data: [DONE]'' @ [CHR 0x0A, CHR 0x0A]))"

definition stream_headers :: "event list" where
  "stream_headers = [SetHeader ''Content-Type'' ''text/event-stream'',
                     SetHeader ''Cache-Control'' ''no-cache'',
                     SetHeader ''Connection'' ''keep-alive'']"

text \<open>The outcome that a pair of draws leads to.\<close>

definition branch :: "nat \<times> nat \<Rightarrow> outcome" where
  "branch = (\<lambda>(a, b). if a mod 10 < 5 then (if b mod 10 < 5 then HardFailure else PlainDelegation)
                       else DelayedDelegation)"


section \<open>UTF-8: decoding what was encoded\<close>

lemma encode_rune_bytes: "b \<in> set (encode_rune r) \<Longrightarrow> b < 256"
  by (auto simp: encode_rune_def split: if_splits)

lemma decode_bytes_2:
  "2 \<le> a \<Longrightarrow> a \<le> 31 \<Longrightarrow> c < 64 \<Longrightarrow>
   decode_utf8 ((0xC0 + a) # (0x80 + c) # bs) = (a * 64 + c) # decode_utf8 bs"
  by (simp add: cont_byte_def)

lemma decode_bytes_3:
  "a \<le> 15 \<Longrightarrow> b < 64 \<Longrightarrow> c < 64 \<Longrightarrow> (a = 0 \<Longrightarrow> 32 \<le> b) \<Longrightarrow> (a = 13 \<Longrightarrow> b \<le> 31) \<Longrightarrow>
   decode_utf8 ((0xE0 + a) # (0x80 + b) # (0x80 + c) # bs)
     = (a * 4096 + b * 64 + c) # decode_utf8 bs"
  by (simp add: cont_byte_def)

lemma decode_bytes_4:
  "a \<le> 4 \<Longrightarrow> b < 64 \<Longrightarrow> c < 64 \<Longrightarrow> d < 64 \<Longrightarrow> (a = 0 \<Longrightarrow> 16 \<le> b) \<Longrightarrow> (a = 4 \<Longrightarrow> b \<le> 15) \<Longrightarrow>
   decode_utf8 ((0xF0 + a) # (0x80 + b) # (0x80 + c) # (0x80 + d) # bs)
     = (a * 262144 + b * 4096 + c * 64 + d) # decode_utf8 bs"
  by (simp add: cont_byte_def)

lemma decode_encode_1:
  assumes "r \<le> 0x7F"
  shows "decode_utf8 (encode_rune r @ bs) = r # decode_utf8 bs"
  using assms by (simp add: encode_rune_def)

lemma decode_encode_2:
  assumes "0x7F < r" "r \<le> 0x7FF"
  shows "decode_utf8 (encode_rune r @ bs) = r # decode_utf8 bs"
proof -
  have enc: "encode_rune r = [0xC0 + r div 64, 0x80 + r mod 64]"
    using assms by (simp add: encode_rune_def)
  have "2 \<le> r div 64" "r div 64 \<le> 31" "r mod 64 < 64"
    using assms by simp_all
  then have "decode_utf8 ((0xC0 + r div 64) # (0x80 + r mod 64) # bs)
               = (r div 64 * 64 + r mod 64) # decode_utf8 bs"
    by (rule decode_bytes_2)
  then show ?thesis by (simp add: enc)
qed

lemma decode_encode_3:
  assumes "0x7FF < r" "r \<le> 0xFFFF" "\<not> (0xD800 \<le> r \<and> r \<le> 0xDFFF)"
  shows "decode_utf8 (encode_rune r @ bs) = r # decode_utf8 bs"
proof -
  define q where "q = r div 64"
  have d: "r div 4096 = r div 64 div 64"
    using div_mult2_eq[of r 64 64] by simp
  have enc: "encode_rune r = [0xE0 + q div 64, 0x80 + q mod 64, 0x80 + r mod 64]"
    unfolding q_def using assms by (auto simp: encode_rune_def d)
  have r: "r = q * 64 + r mod 64" by (simp add: q_def)
  have c: "r mod 64 < 64" by simp
  have q: "32 \<le> q" "q \<le> 1023" "\<not> (864 \<le> q \<and> q \<le> 895)"
    using assms r c by linarith+
  define a where "a = q div 64"
  define b where "b = q mod 64"
  have qe: "q = a * 64 + b" and b: "b < 64" by (simp_all add: a_def b_def)
  have a: "a \<le> 15" using q qe b by linarith
  have lo: "a = 0 \<Longrightarrow> 32 \<le> b" using q qe by simp
  have hi: "a = 13 \<Longrightarrow> b \<le> 31" using q qe b by linarith
  have "decode_utf8 ((0xE0 + a) # (0x80 + b) # (0x80 + r mod 64) # bs)
               = (a * 4096 + b * 64 + r mod 64) # decode_utf8 bs"
    using a b c lo hi by (rule decode_bytes_3)
  moreover have "a * 4096 + b * 64 + r mod 64 = r"
    using r qe by linarith
  ultimately show ?thesis by (simp add: enc a_def b_def)
qed

lemma decode_encode_4:
  assumes "0xFFFF < r" "r \<le> 0x10FFFF"
  shows "decode_utf8 (encode_rune r @ bs) = r # decode_utf8 bs"
proof -
  define q1 where "q1 = r div 64"
  define q2 where "q2 = q1 div 64"
  define a where "a = q2 div 64"
  define b where "b = q2 mod 64"
  define c where "c = q1 mod 64"
  define d where "d = r mod 64"
  have d1: "r div 4096 = q2"
    using div_mult2_eq[of r 64 64] by (simp add: q1_def q2_def)
  have d2: "r div 262144 = a"
    using div_mult2_eq[of r 4096 64] by (simp add: d1 a_def)
  have enc: "encode_rune r = [0xF0 + a, 0x80 + b, 0x80 + c, 0x80 + d]"
    using assms by (simp add: encode_rune_def d1 d2 b_def c_def d_def q1_def)
  have r: "r = q1 * 64 + d" and q1: "q1 = q2 * 64 + c" and q2: "q2 = a * 64 + b"
    and lt: "b < 64" "c < 64" "d < 64"
    by (simp_all add: q1_def q2_def a_def b_def c_def d_def)
  have q2b: "16 \<le> q2" "q2 \<le> 271"
    using assms r q1 lt by linarith+
  have a: "a \<le> 4" using q2b q2 lt by linarith
  have lo: "a = 0 \<Longrightarrow> 16 \<le> b" using q2b q2 by simp
  have hi: "a = 4 \<Longrightarrow> b \<le> 15" using q2b q2 by linarith
  have "decode_utf8 ((0xF0 + a) # (0x80 + b) # (0x80 + c) # (0x80 + d) # bs)
          = (a * 262144 + b * 4096 + c * 64 + d) # decode_utf8 bs"
    using a lt lo hi by (rule decode_bytes_4)
  moreover have "a * 262144 + b * 4096 + c * 64 + d = r"
    using r q1 q2 by linarith
  ultimately show ?thesis by (simp add: enc)
qed

lemma decode_encode_rune:
  assumes "scalar_value r"
  shows "decode_utf8 (encode_rune r @ bs) = r # decode_utf8 bs"
proof -
  consider "r \<le> 0x7F" | "0x7F < r" "r \<le> 0x7FF"
    | "0x7FF < r" "r \<le> 0xFFFF" "\<not> (0xD800 \<le> r \<and> r \<le> 0xDFFF)"
    | "0xFFFF < r" "r \<le> 0x10FFFF"
    using assms unfolding scalar_value_def by linarith
  then show ?thesis
    by cases (rule decode_encode_1 decode_encode_2 decode_encode_3 decode_encode_4; assumption)+
qed

lemma decode_encode_runes:
  "list_all scalar_value rs \<Longrightarrow> decode_utf8 (concat (map encode_rune rs)) = rs"
  by (induction rs) (simp_all add: decode_encode_rune)

lemma of_char_char_of_bytes:
  "\<forall>b \<in> set bs. b < 256 \<Longrightarrow> map of_char (map char_of bs) = (bs :: nat list)"
  by (induction bs) simp_all

lemma runes_of_string_of_runes:
  assumes "list_all scalar_value rs"
  shows "runes_of_string (string_of_runes rs) = rs"
proof -
  have "\<forall>b \<in> set (concat (map encode_rune rs)). b < 256"
    by (auto dest: encode_rune_bytes)
  then show ?thesis
    unfolding runes_of_string_def string_of_runes_def
    by (simp only: of_char_char_of_bytes decode_encode_runes[OF assms])
qed

lemma encode_rune_nonempty: "encode_rune r \<noteq> []"
  by (simp add: encode_rune_def)

lemma string_of_runes_Nil_iff [simp]: "string_of_runes rs = [] \<longleftrightarrow> rs = []"
  by (cases rs) (simp_all add: string_of_runes_def encode_rune_nonempty)

lemma string_of_runes_concat:
  "string_of_runes (concat xss) = concat (map string_of_runes xss)"
  by (induction xss) (simp_all add: string_of_runes_def)


section \<open>The trace of the streaming responder\<close>

lemma trace_emit [simp]: "trace (emit e w) = trace w @ [e]"
  and tape_emit [simp]: "tape (emit e w) = tape w"
  and unix_now_emit [simp]: "unix_now (emit e w) = unix_now w"
  and is_flusher_emit [simp]: "is_flusher (emit e w) = is_flusher w"
  by (simp_all add: emit_def)

lemma trace_writeChunk [simp]:
  "trace (writeChunk w c) = trace w @ chunk_events (is_flusher w) c"
  by (simp add: writeChunk_def chunk_events_def Let_def)

lemma env_writeChunk [simp]:
  "tape (writeChunk w c) = tape w"
  "unix_now (writeChunk w c) = unix_now w"
  "is_flusher (writeChunk w c) = is_flusher w"
  by (simp_all add: writeChunk_def Let_def)

lemma Intn_env [simp]:
  "trace (snd (Intn n w)) = trace w"
  "unix_now (snd (Intn n w)) = unix_now w"
  "is_flusher (snd (Intn n w)) = is_flusher w"
  by (simp_all add: Intn_def split: list.splits)

lemma randomRunes_env [simp]:
  "trace (snd (randomRunes n w)) = trace w"
  "unix_now (snd (randomRunes n w)) = unix_now w"
  "is_flusher (snd (randomRunes n w)) = is_flusher w"
  by (induction n arbitrary: w; simp add: split_beta Let_def)+

lemma randomString_env [simp]:
  "trace (snd (randomString n w)) = trace w"
  "unix_now (snd (randomString n w)) = unix_now w"
  "is_flusher (snd (randomString n w)) = is_flusher w"
  by (simp_all add: randomString_def split_beta Let_def)

lemma pairs_unfold: "xs \<noteq> [] \<Longrightarrow> pairs xs = take 2 xs # pairs (drop 2 xs)"
  by (induction xs rule: pairs.induct) simp_all

lemma streamLoop_env [simp]:
  "tape (streamLoop id' created req runes i w) = tape w"
  "unix_now (streamLoop id' created req runes i w) = unix_now w"
  "is_flusher (streamLoop id' created req runes i w) = is_flusher w"
  by (induction id' created req runes i w rule: streamLoop.induct;
      subst streamLoop.simps; simp add: Let_def)+

lemma trace_streamLoop:
  "trace (streamLoop id' created req runes i w) =
     trace w @ concat (map (\<lambda>p. chunk_events (is_flusher w)
                                  (content_chunk id' created req (string_of_runes p))
                                @ [Sleep StreamResponseInterval])
                           (pairs (drop i runes)))"
proof (induction id' created req runes i w rule: streamLoop.induct)
  case (1 id' created req runes i w)
  show ?case
  proof (cases "i < length runes")
    case False
    then show ?thesis by (subst streamLoop.simps) simp
  next
    case True
    then have ne: "drop i runes \<noteq> []" by simp
    show ?thesis
      apply (subst streamLoop.simps)
      apply (simp only: True if_True Let_def)
      apply (subst "1.IH"[OF True refl refl refl refl])
      apply (auto simp add: pairs_unfold[OF ne] content_chunk_def slice_def)
      done
  qed
qed

lemma added_append: "trace w' = trace w @ es \<Longrightarrow> added w w' = es"
  by (simp add: added_def)

lemma frames_append [simp]: "frames (xs @ ys) = frames xs @ frames ys"
  by (induction xs rule: frames.induct) simp_all

lemma frames_chunk_events [simp]: "frames (chunk_events fl c) = [c]"
  by (simp add: chunk_events_def)

lemma frames_loop [simp]:
  "frames (concat (map (\<lambda>p. chunk_events fl (f p) @ [Sleep n]) ps)) = map f ps"
  by (induction ps) simp_all

lemma trace_streamReply:
  "trace (streamReply w req response) =
     trace w
     @ chunk_events (is_flusher w) (initial_chunk (stream_id w) (unix_now w) req)
     @ concat (map (\<lambda>p. chunk_events (is_flusher w)
                            (content_chunk (stream_id w) (unix_now w) req (string_of_runes p))
                          @ [Sleep StreamResponseInterval])
                   (pairs (runes_of_string response)))
     @ chunk_events (is_flusher w) (final_chunk (stream_id w) (unix_now w) req)
     @ [done_frame]"
  by (simp add: streamReply_def split_beta Let_def trace_streamLoop stream_id_def
      initial_chunk_def final_chunk_def done_frame_def)

lemma streamed_eq:
  "streamed w req response =
     initial_chunk (stream_id w) (unix_now w) req
     # map (\<lambda>p. content_chunk (stream_id w) (unix_now w) req (string_of_runes p))
           (pairs (runes_of_string response))
     @ [final_chunk (stream_id w) (unix_now w) req]"
  unfolding streamed_def
  by (subst added_append[OF trace_streamReply]) (simp add: done_frame_def)

lemma length_pairs: "length (pairs xs) = (length xs + 1) div 2"
  by (induction xs rule: pairs.induct) simp_all

lemma concat_pairs: "concat (pairs xs) = xs"
  by (induction xs rule: pairs.induct) simp_all

lemma pairs_nonempty: "p \<in> set (pairs xs) \<Longrightarrow> p \<noteq> []"
  by (induction xs rule: pairs.induct) auto

lemma nth_pairs: "k < length (pairs xs) \<Longrightarrow> pairs xs ! k = take 2 (drop (2 * k) xs)"
proof (induction xs arbitrary: k rule: pairs.induct)
  case (3 x y xs)
  then show ?case by (cases k) simp_all
qed simp_all

lemma length_nth_pairs:
  "k < length (pairs xs) \<Longrightarrow>
     length (pairs xs ! k) = (if 2 * k + 2 \<le> length xs then 2 else 1)"
  by (auto simp: nth_pairs length_pairs)

lemma initial_chunk_fields [simp]:
  "delta_role (initial_chunk i c r) = ''assistant''"
  "delta_content (initial_chunk i c r) = ''''"
  "finish_reason (initial_chunk i c r) = ''''"
  by (simp_all add: initial_chunk_def delta_role_def delta_content_def finish_reason_def)

lemma content_chunk_fields [simp]:
  "delta_role (content_chunk i c r s) = ''''"
  "delta_content (content_chunk i c r s) = s"
  "finish_reason (content_chunk i c r s) = ''''"
  by (simp_all add: content_chunk_def delta_role_def delta_content_def finish_reason_def)

lemma final_chunk_fields [simp]:
  "delta_role (final_chunk i c r) = ''''"
  "delta_content (final_chunk i c r) = ''''"
  "finish_reason (final_chunk i c r) = ''stop''"
  by (simp_all add: final_chunk_def delta_role_def delta_content_def finish_reason_def)

lemma filter_map_none: "(\<And>x. x \<in> set xs \<Longrightarrow> \<not> P (f x)) \<Longrightarrow> filter P (map f xs) = []"
  by (induction xs) simp_all

lemma filter_map_all: "(\<And>x. x \<in> set xs \<Longrightarrow> P (f x)) \<Longrightarrow> filter P (map f xs) = map f xs"
  by (induction xs) simp_all

section \<open>The claims about the streaming responder\<close>

text \<open>
  C1. Let the reply be a text of \<open>L\<close> code points (Unicode scalar values), held as a Go
  string, that is in UTF-8, so that \<^verbatim>\<open>[]rune(reply)\<close> are these code points. The
  streaming responder emits \<open>\<lceil>L/2\<rceil> + 2\<close> frames: first one
  role-only frame, then \<open>\<lceil>L/2\<rceil>\<close> content-bearing frames, the \<open>k\<close>-th of them carrying the
  encoding of the code points \<open>2k\<close> and \<open>2k+1\<close> of the reply (of the single last code point
  when \<open>L\<close> is odd and the frame is the last), then one terminal frame. These are the only
  role-only, content-bearing and terminal frames. The contents of the frames, concatenated in
  the order of emission, are the reply; every content is the encoding of whole code points.
\<close>

theorem stream_frames_roundtrip:
  assumes "list_all scalar_value rs"
  shows "runes_of_string (string_of_runes rs) = rs
    \<and> length (streamed w req (string_of_runes rs)) = 1 + (length rs + 1) div 2 + 1
    \<and> role_only (streamed w req (string_of_runes rs) ! 0)
    \<and> (\<forall>k < (length rs + 1) div 2.
          delta_content (streamed w req (string_of_runes rs) ! (k + 1))
            = string_of_runes (take 2 (drop (2 * k) rs))
          \<and> length (take 2 (drop (2 * k) rs)) = (if 2 * k + 2 \<le> length rs then 2 else 1))
    \<and> terminal (streamed w req (string_of_runes rs) ! ((length rs + 1) div 2 + 1))
    \<and> length (filter role_only (streamed w req (string_of_runes rs))) = 1
    \<and> length (filter content_bearing (streamed w req (string_of_runes rs)))
         = (length rs + 1) div 2
    \<and> length (filter terminal (streamed w req (string_of_runes rs))) = 1
    \<and> concat (map delta_content (streamed w req (string_of_runes rs))) = string_of_runes rs"
proof -
  let ?I = "initial_chunk (stream_id w) (unix_now w) req"
  let ?C = "\<lambda>p. content_chunk (stream_id w) (unix_now w) req (string_of_runes p)"
  let ?F = "final_chunk (stream_id w) (unix_now w) req"
  let ?fs = "streamed w req (string_of_runes rs)"
  let ?n = "(length rs + 1) div 2"
  have fs: "?fs = ?I # map ?C (pairs rs) @ [?F]"
    by (simp add: streamed_eq runes_of_string_of_runes[OF assms])
  have n: "length (pairs rs) = ?n" by (rule length_pairs)
  have len: "length ?fs = 1 + ?n + 1" by (simp add: fs n)
  have first: "role_only (?fs ! 0)" by (simp add: fs role_only_def)
  have mid: "delta_content (?fs ! (k + 1)) = string_of_runes (take 2 (drop (2 * k) rs))
      \<and> length (take 2 (drop (2 * k) rs)) = (if 2 * k + 2 \<le> length rs then 2 else 1)"
    if "k < ?n" for k
  proof -
    have k: "k < length (pairs rs)" using that n by simp
    have "?fs ! (k + 1) = ?C (pairs rs ! k)"
      using k by (simp add: fs nth_append)
    then show ?thesis
      using k length_nth_pairs[OF k] by (simp add: nth_pairs)
  qed
  have last: "terminal (?fs ! (?n + 1))"
    by (simp add: fs nth_append n terminal_def)
  have c1: "filter role_only (map ?C (pairs rs)) = []"
    by (rule filter_map_none) (simp add: role_only_def)
  have c2: "filter content_bearing (map ?C (pairs rs)) = map ?C (pairs rs)"
    by (rule filter_map_all) (simp add: content_bearing_def pairs_nonempty)
  have c3: "filter terminal (map ?C (pairs rs)) = []"
    by (rule filter_map_none) (simp add: terminal_def)
  have cnt1: "length (filter role_only ?fs) = 1"
    by (simp add: fs c1) (simp add: role_only_def)
  have cnt2: "length (filter content_bearing ?fs) = ?n"
    by (simp add: fs c2 n) (simp add: content_bearing_def)
  have cnt3: "length (filter terminal ?fs) = 1"
    by (simp add: fs c3) (simp add: terminal_def)
  have "concat (map delta_content ?fs) = concat (map string_of_runes (pairs rs))"
    by (simp add: fs comp_def)
  also have "\<dots> = string_of_runes rs"
    by (simp add: string_of_runes_concat[symmetric] concat_pairs)
  finally have cat: "concat (map delta_content ?fs) = string_of_runes rs" .
  show ?thesis
    using runes_of_string_of_runes[OF assms] len first mid last cnt1 cnt2 cnt3 cat by blast
qed

theorem stream_frames_roundtrip_witness:
  "list_all scalar_value [104, 233, 19990]
   \<and> length (streamed example_world example_request (string_of_runes [104, 233, 19990])) = 4
   \<and> delta_content (streamed example_world example_request (string_of_runes [104, 233, 19990]) ! 1)
       = string_of_runes [104, 233]
   \<and> delta_content (streamed example_world example_request (string_of_runes [104, 233, 19990]) ! 2)
       = string_of_runes [19990]
   \<and> concat (map delta_content
         (streamed example_world example_request (string_of_runes [104, 233, 19990])))
       = string_of_runes [104, 233, 19990]"
proof -
  have h: "list_all scalar_value [104, 233, 19990]"
    by (simp add: scalar_value_def)
  note t = stream_frames_roundtrip[OF h, of example_world example_request]
  from t have k: "\<forall>k<2. delta_content
        (streamed example_world example_request (string_of_runes [104, 233, 19990]) ! (k + 1))
        = string_of_runes (take 2 (drop (2 * k) [104, 233, 19990]))"
    by simp
  from k[rule_format, of 0] have "delta_content
        (streamed example_world example_request (string_of_runes [104, 233, 19990]) ! 1)
        = string_of_runes [104, 233]"
    by simp
  moreover from k[rule_format, of 1] have "delta_content
        (streamed example_world example_request (string_of_runes [104, 233, 19990]) ! 2)
        = string_of_runes [19990]"
    by (simp add: numeral_2_eq_2)
  ultimately show ?thesis using h t by simp
qed

text \<open>
  C2. In every streamed response there are at least two frames; the delta of the first has a
  non-empty role, an empty content and an empty finish reason; the delta of the last has an
  empty content and an empty role, and the finish reason is \<^verbatim>\<open>stop\<close>; every frame in
  between has a non-empty content, an empty role and an empty finish reason.
\<close>

theorem stream_frame_shapes:
  "2 \<le> length (streamed w req response)
   \<and> delta_role (hd (streamed w req response)) \<noteq> ''''
   \<and> delta_content (hd (streamed w req response)) = ''''
   \<and> finish_reason (hd (streamed w req response)) = ''''
   \<and> delta_content (last (streamed w req response)) = ''''
   \<and> delta_role (last (streamed w req response)) = ''''
   \<and> finish_reason (last (streamed w req response)) = ''stop''
   \<and> (\<forall>i. 0 < i \<and> i + 1 < length (streamed w req response) \<longrightarrow>
          delta_content (streamed w req response ! i) \<noteq> ''''
          \<and> delta_role (streamed w req response ! i) = ''''
          \<and> finish_reason (streamed w req response ! i) = '''')"
proof -
  let ?ps = "pairs (runes_of_string response)"
  let ?C = "\<lambda>p. content_chunk (stream_id w) (unix_now w) req (string_of_runes p)"
  have mid: "delta_content (streamed w req response ! i) \<noteq> ''''
          \<and> delta_role (streamed w req response ! i) = ''''
          \<and> finish_reason (streamed w req response ! i) = ''''"
    if "0 < i \<and> i + 1 < length (streamed w req response)" for i
  proof -
    from that obtain j where j: "i = Suc j" "j < length ?ps"
      by (cases i) (simp_all add: streamed_eq)
    then have "streamed w req response ! i = ?C (?ps ! j)"
      by (simp add: streamed_eq nth_append)
    moreover have "?ps ! j \<noteq> []"
      using j pairs_nonempty by (metis nth_mem)
    ultimately show ?thesis by simp
  qed
  show ?thesis
    using mid by (simp add: streamed_eq)
qed

lemma runes_abc: "runes_of_string ''abc'' = [97, 98, 99]"
  by (simp add: runes_of_string_def)

theorem stream_frame_shapes_witness:
  "0 < (1::nat) \<and> 1 + 1 < length (streamed example_world example_request ''abc'')
   \<and> delta_content (streamed example_world example_request ''abc'' ! 1) \<noteq> ''''
   \<and> delta_role (streamed example_world example_request ''abc'' ! 1) = ''''
   \<and> finish_reason (streamed example_world example_request ''abc'' ! 1) = ''''"
proof -
  have len: "(1::nat) + 1 < length (streamed example_world example_request ''abc'')"
    by (simp add: streamed_eq runes_abc)
  from stream_frame_shapes[of example_world example_request "''abc''"]
  have "0 < (1::nat) \<and> 1 + 1 < length (streamed example_world example_request ''abc'') \<longrightarrow>
          delta_content (streamed example_world example_request ''abc'' ! 1) \<noteq> ''''
          \<and> delta_role (streamed example_world example_request ''abc'' ! 1) = ''''
          \<and> finish_reason (streamed example_world example_request ''abc'' ! 1) = ''''"
    by blast
  with len show ?thesis by simp
qed

text \<open>
  C3. Any two frames of one streamed response carry the same id, the same creation time, the
  same model and the same fingerprint: the id is \<^verbatim>\<open>chatcmpl-\<close> followed by the random
  string drawn once, the time is the one read once, the fingerprint is the constant
  \<^verbatim>\<open>fp_44709d6fcb\<close>.
\<close>

theorem stream_frames_share_fields:
  "\<forall>c \<in> set (streamed w req response). \<forall>c' \<in> set (streamed w req response).
      ID c = ID c' \<and> Created c = Created c' \<and> Model c = Model c'
      \<and> SystemFingerprint c = SystemFingerprint c'
      \<and> SystemFingerprint c = ''fp_44709d6fcb''
      \<and> ID c = ''chatcmpl-'' @ fst (randomString 10 w)
      \<and> Created c = unix_now w"
proof -
  have "ID c = stream_id w \<and> Created c = unix_now w
        \<and> Model c = ChatCompletionRequest.Model req
        \<and> SystemFingerprint c = ''fp_44709d6fcb''"
    if "c \<in> set (streamed w req response)" for c
    using that
    by (auto simp: streamed_eq initial_chunk_def content_chunk_def final_chunk_def)
  then show ?thesis by (simp add: stream_id_def)
qed

theorem stream_frames_share_fields_witness:
  "streamed example_world example_request ''abc'' ! 0
     \<in> set (streamed example_world example_request ''abc'')
   \<and> streamed example_world example_request ''abc'' ! 3
     \<in> set (streamed example_world example_request ''abc'')
   \<and> ID (streamed example_world example_request ''abc'' ! 0)
      = ID (streamed example_world example_request ''abc'' ! 3)
   \<and> Created (streamed example_world example_request ''abc'' ! 0) = 1700000000
   \<and> Created (streamed example_world example_request ''abc'' ! 3) = 1700000000
   \<and> SystemFingerprint (streamed example_world example_request ''abc'' ! 3) = ''fp_44709d6fcb''"
proof -
  have len: "length (streamed example_world example_request ''abc'') = 4"
    by (simp add: streamed_eq runes_abc)
  have m0: "streamed example_world example_request ''abc'' ! 0
              \<in> set (streamed example_world example_request ''abc'')"
    and m3: "streamed example_world example_request ''abc'' ! 3
              \<in> set (streamed example_world example_request ''abc'')"
    by (rule nth_mem, simp add: len)+
  have now: "unix_now example_world = 1700000000"
    by (simp add: example_world_def)
  from stream_frames_share_fields[of example_world example_request "''abc''"] m0 m3 now
  show ?thesis by metis
qed

text \<open>
  C9. For every request, the non-streaming responder encodes one envelope, whose model is the
  model of the request, and every frame that the streaming responder writes carries the model
  of the request; the string is copied as it is, whatever it is, the empty string included.
\<close>

theorem model_echoed:
  "length (envelopes (added w (handleNonStreamingResponse w req))) = 1
   \<and> (\<forall>e \<in> set (envelopes (added w (handleNonStreamingResponse w req))).
         ChatCompletionResponse.Model e = ChatCompletionRequest.Model req)
   \<and> frames (added w (handleStreamingResponse w req)) \<noteq> []
   \<and> (\<forall>c \<in> set (frames (added w (handleStreamingResponse w req))).
         ChatCompletionChunk.Model c = ChatCompletionRequest.Model req)"
proof -
  have ns: "\<exists>e. trace (handleNonStreamingResponse w req)
               = trace w @ [SetHeader ''Content-Type'' ''application/json'', Encode e]
             \<and> ChatCompletionResponse.Model e = ChatCompletionRequest.Model req"
    by (simp add: handleNonStreamingResponse_def split_beta Let_def)
  then obtain e where e: "added w (handleNonStreamingResponse w req)
               = [SetHeader ''Content-Type'' ''application/json'', Encode e]"
      "ChatCompletionResponse.Model e = ChatCompletionRequest.Model req"
    by (auto dest: added_append)
  let ?w3 = "emit (SetHeader ''Connection'' ''keep-alive'')
              (emit (SetHeader ''Cache-Control'' ''no-cache'')
                (emit (SetHeader ''Content-Type'' ''text/event-stream'') w))"
  have "trace (handleStreamingResponse w req)
          = trace w @ [SetHeader ''Content-Type'' ''text/event-stream'',
                       SetHeader ''Cache-Control'' ''no-cache'',
                       SetHeader ''Connection'' ''keep-alive'']
            @ added ?w3 (streamReply ?w3 req (generateResponse (Messages req)))"
    by (simp add: handleStreamingResponse_def Let_def added_append[OF trace_streamReply]
        trace_streamReply)
  then have "frames (added w (handleStreamingResponse w req))
          = streamed ?w3 req (generateResponse (Messages req))"
    by (simp add: added_append streamed_def)
  then have st: "frames (added w (handleStreamingResponse w req)) \<noteq> []"
    "\<forall>c \<in> set (frames (added w (handleStreamingResponse w req))).
         ChatCompletionChunk.Model c = ChatCompletionRequest.Model req"
    by (auto simp: streamed_eq initial_chunk_def content_chunk_def final_chunk_def)
  show ?thesis using e st by simp
qed

theorem model_echoed_witness:
  "hd (envelopes (added example_world (handleNonStreamingResponse example_world example_request)))
     \<in> set (envelopes (added example_world
                (handleNonStreamingResponse example_world example_request)))
   \<and> ChatCompletionResponse.Model
        (hd (envelopes (added example_world
               (handleNonStreamingResponse example_world example_request)))) = ''''
   \<and> hd (frames (added example_world (handleStreamingResponse example_world example_request)))
     \<in> set (frames (added example_world
                (handleStreamingResponse example_world example_request)))
   \<and> ChatCompletionChunk.Model
        (hd (frames (added example_world
               (handleStreamingResponse example_world example_request)))) = ''''"
proof -
  note t = model_echoed[of example_world example_request]
  from t have "envelopes (added example_world
                 (handleNonStreamingResponse example_world example_request)) \<noteq> []"
    by (metis length_0_conv zero_neq_one)
  then have e: "hd (envelopes (added example_world
                      (handleNonStreamingResponse example_world example_request)))
     \<in> set (envelopes (added example_world
                (handleNonStreamingResponse example_world example_request)))"
    by (rule hd_in_set)
  from t have "frames (added example_world
                 (handleStreamingResponse example_world example_request)) \<noteq> []"
    by blast
  then have c: "hd (frames (added example_world
                      (handleStreamingResponse example_world example_request)))
     \<in> set (frames (added example_world
                (handleStreamingResponse example_world example_request)))"
    by (rule hd_in_set)
  have m: "ChatCompletionRequest.Model example_request = ''''"
    by (simp add: example_request_def)
  from t e c m show ?thesis by metis
qed

section \<open>The traces of the handlers\<close>

lemma trace_added: "trace w' = trace w @ es \<Longrightarrow> trace w' = trace w @ added w w'"
  by (simp add: added_def)

lemma added_emit: "trace w' = trace w @ es \<Longrightarrow> added w (emit e w') = added w w' @ [e]"
  by (simp add: added_def)

lemma added_self_emit [simp]: "added w (emit e w) = [e]"
  by (simp add: added_def)

lemma trace_handleNonStreaming:
  "\<exists>e. trace (handleNonStreamingResponse w req)
         = trace w @ [SetHeader ''Content-Type'' ''application/json'', Encode e]"
  by (simp add: handleNonStreamingResponse_def split_beta Let_def)

lemma trace_handleStreaming:
  "trace (handleStreamingResponse w req)
     = trace w @ stream_headers
       @ chunk_events (is_flusher w) (initial_chunk (stream_id w) (unix_now w) req)
       @ concat (map (\<lambda>p. chunk_events (is_flusher w)
                              (content_chunk (stream_id w) (unix_now w) req (string_of_runes p))
                            @ [Sleep StreamResponseInterval])
                     (pairs (runes_of_string (generateResponse (Messages req)))))
       @ chunk_events (is_flusher w) (final_chunk (stream_id w) (unix_now w) req)
       @ [done_frame]"
proof -
  have Intn_emit: "Intn n (emit e v) = (fst (Intn n v), emit e (snd (Intn n v)))" for n e v
    by (simp add: Intn_def emit_def split: list.splits)
  have rr: "randomRunes n (emit e v) = (fst (randomRunes n v), emit e (snd (randomRunes n v)))"
    for n e v
    by (induction n arbitrary: v) (simp_all add: Intn_emit split_beta Let_def)
  have "fst (randomString 10 (emit e v)) = fst (randomString 10 v)" for e v
    by (simp add: randomString_def split_beta Let_def rr)
  then have sid: "stream_id (emit e v) = stream_id v" for e v
    by (simp add: stream_id_def)
  show ?thesis
    by (simp add: handleStreamingResponse_def Let_def trace_streamReply sid stream_headers_def)
qed

lemma processRequest_cases:
  "added w (processRequest lib w r) =
     (if Method r \<noteq> ''POST'' then [HttpError ''Method not allowed'' 405]
      else case json_Decode lib (Body r) of
             None \<Rightarrow> [HttpError ''Invalid request body'' 400]
           | Some req \<Rightarrow>
               LogRequest req (Stream req)
               # (if Stream req
                  then added (emit (LogRequest req (Stream req)) w)
                         (handleStreamingResponse (emit (LogRequest req (Stream req)) w) req)
                  else added (emit (LogRequest req (Stream req)) w)
                         (handleNonStreamingResponse (emit (LogRequest req (Stream req)) w) req)))"
proof -
  have s: "added w (handleStreamingResponse (emit e w) req)
             = e # added (emit e w) (handleStreamingResponse (emit e w) req)" for e req
    by (simp add: added_def trace_handleStreaming)
  have n: "added w (handleNonStreamingResponse (emit e w) req)
             = e # added (emit e w) (handleNonStreamingResponse (emit e w) req)" for e req
    using trace_handleNonStreaming[of "emit e w" req] by (auto simp: added_def)
  show ?thesis
    by (simp add: processRequest_def Let_def s n split: option.splits)
qed

lemma trace_processRequest:
  "trace (processRequest lib w r) = trace w @ added w (processRequest lib w r)"
proof -
  have "\<exists>es. trace (processRequest lib w r) = trace w @ es"
    using trace_handleNonStreaming
    by (auto simp: processRequest_def Let_def trace_handleStreaming split: option.splits)
      (metis append.assoc trace_emit)
  then show ?thesis by (auto dest: trace_added)
qed

lemma handleChatCompletion_cases:
  "added w (handleChatCompletion lib w r) =
     (if ContentEncoding r = ''gzip'' then
        (case gzip_NewReader lib (Body r) of
           None \<Rightarrow> [HttpError ''Failed to decompress request body'' 400]
         | Some b \<Rightarrow> added w (processRequest lib w (r\<lparr>Body := b\<rparr>)) @ [CloseGzip])
      else added w (processRequest lib w r))"
  by (simp add: handleChatCompletion_def added_emit[OF trace_processRequest]
      split: option.splits)

lemma trace_handleChatCompletion:
  "trace (handleChatCompletion lib w r) = trace w @ added w (handleChatCompletion lib w r)"
proof -
  have "\<exists>es. trace (handleChatCompletion lib w r) = trace w @ es"
    using trace_processRequest
    by (auto simp: handleChatCompletion_def split: option.splits)
  then show ?thesis by (auto dest: trace_added)
qed

lemma writer_calls_append [simp]: "writer_calls (xs @ ys) = writer_calls xs @ writer_calls ys"
  by (simp add: writer_calls_def)

lemma writer_calls_chunk_events [simp]:
  "writer_calls (chunk_events fl c) = Write (Data c) # (if fl then [Flush] else [])"
  by (simp add: writer_calls_def chunk_events_def)

lemma writer_calls_loop [simp]:
  "writer_calls (concat (map (\<lambda>p. chunk_events fl (f p) @ [Sleep n]) ps))
     = concat (map (\<lambda>c. Write (Data c) # (if fl then [Flush] else [])) (map f ps))"
  by (cases fl; induction ps; simp add: writer_calls_def chunk_events_def)

lemma frames_handleStreaming:
  "frames (added w (handleStreamingResponse w req)) =
     initial_chunk (stream_id w) (unix_now w) req
     # map (\<lambda>p. content_chunk (stream_id w) (unix_now w) req (string_of_runes p))
           (pairs (runes_of_string (generateResponse (Messages req))))
     @ [final_chunk (stream_id w) (unix_now w) req]"
  by (subst added_append[OF trace_handleStreaming])
     (simp add: stream_headers_def done_frame_def)

lemma writer_calls_handleStreaming:
  "writer_calls (added w (handleStreamingResponse w req))
     = stream_headers
       @ concat (map (\<lambda>c. Write (Data c) # (if is_flusher w then [Flush] else []))
                     (frames (added w (handleStreamingResponse w req))))
       @ [done_frame]"
  unfolding frames_handleStreaming
  by (subst added_append[OF trace_handleStreaming])
     (simp, simp add: writer_calls_def stream_headers_def done_frame_def)

lemma flushed_after_write_snoc: "\<not> flushed_after_write (es @ [Write p])"
  by (induction es rule: flushed_after_write.induct) simp_all

section \<open>The claim about flushing\<close>

text \<open>
  C6 as it is stated fails. On a response writer that can flush, the calls of a streamed
  response do not have a flush after every write: the write of the terminator
  \<^verbatim>\<open>data: [DONE]\<close> is the last call, and nothing follows it.
\<close>

theorem terminator_not_flushed_counterexample:
  "is_flusher example_world
   \<and> \<not> flushed_after_write
         (writer_calls (added example_world
            (handleStreamingResponse example_world example_request)))"
proof -
  have "\<not> flushed_after_write
         (writer_calls (added example_world
            (handleStreamingResponse example_world example_request)))"
    unfolding writer_calls_handleStreaming done_frame_def append_assoc[symmetric]
    by (rule flushed_after_write_snoc)
  then show ?thesis by (simp add: example_world_def)
qed

text \<open>
  C6, amended. In the sequence of calls on the response writer of every streamed response,
  after the three headers, the write of each chunk frame is immediately followed by a flush
  when the writer supports flushing (and by no flush at all when it does not), and the write
  of the terminator \<^verbatim>\<open>data: [DONE]\<close> comes last, with no flush after it. Among all effects,
  only the log record of the chunk stands between the write of a frame and its flush, and the
  sleep after a content frame comes after the flush.
\<close>

theorem chunk_writes_flushed:
  "writer_calls (added w (handleStreamingResponse w req))
     = [SetHeader ''Content-Type'' ''text/event-stream'',
        SetHeader ''Cache-Control'' ''no-cache'',
        SetHeader ''Connection'' ''keep-alive'']
       @ concat (map (\<lambda>c. Write (Data c) # (if is_flusher w then [Flush] else []))
                     (frames (added w (handleStreamingResponse w req))))
       @ [Write (Literal (''data: [DONE]'' @ [CHR 0x0A, CHR 0x0A]))]
   \<and> added w (handleStreamingResponse w req)
     = [SetHeader ''Content-Type'' ''text/event-stream'',
        SetHeader ''Cache-Control'' ''no-cache'',
        SetHeader ''Connection'' ''keep-alive'']
       @ concat (map (\<lambda>c. [Write (Data c), LogChunk c]
                          @ (if is_flusher w then [Flush] else [])
                          @ (if delta_content c = '''' then []
                             else [Sleep StreamResponseInterval]))
                     (frames (added w (handleStreamingResponse w req))))
       @ [Write (Literal (''data: [DONE]'' @ [CHR 0x0A, CHR 0x0A]))]"
proof -
  let ?g = "\<lambda>c. [Write (Data c), LogChunk c]
                          @ (if is_flusher w then [Flush] else [])
                          @ (if delta_content c = '''' then []
                             else [Sleep StreamResponseInterval])"
  let ?C = "\<lambda>p. content_chunk (stream_id w) (unix_now w) req (string_of_runes p)"
  have loop: "concat (map (\<lambda>p. chunk_events (is_flusher w) (?C p)
                            @ [Sleep StreamResponseInterval]) ps)
              = concat (map ?g (map ?C ps))" if "\<forall>p \<in> set ps. p \<noteq> []" for ps
    using that by (induction ps) (simp_all add: chunk_events_def)
  have ne: "\<forall>p \<in> set (pairs (runes_of_string (generateResponse (Messages req)))). p \<noteq> []"
    using pairs_nonempty by blast
  let ?I = "initial_chunk (stream_id w) (unix_now w) req"
  let ?F = "final_chunk (stream_id w) (unix_now w) req"
  let ?ps = "pairs (runes_of_string (generateResponse (Messages req)))"
  have gI: "chunk_events (is_flusher w) ?I = ?g ?I"
    and gF: "chunk_events (is_flusher w) ?F = ?g ?F"
    by (simp_all add: chunk_events_def)
  have "added w (handleStreamingResponse w req)
     = stream_headers @ chunk_events (is_flusher w) ?I
       @ concat (map (\<lambda>p. chunk_events (is_flusher w) (?C p)
                            @ [Sleep StreamResponseInterval]) ?ps)
       @ chunk_events (is_flusher w) ?F @ [done_frame]"
    by (rule added_append[OF trace_handleStreaming])
  also have "\<dots> = stream_headers @ ?g ?I @ concat (map ?g (map ?C ?ps)) @ ?g ?F @ [done_frame]"
    by (simp only: loop[OF ne] gI gF)
  also have "\<dots> = stream_headers @ concat (map ?g (?I # map ?C ?ps @ [?F])) @ [done_frame]"
    by simp
  finally have a: "added w (handleStreamingResponse w req)
     = stream_headers @ concat (map ?g (?I # map ?C ?ps @ [?F])) @ [done_frame]" .
  have full: "added w (handleStreamingResponse w req)
     = stream_headers
       @ concat (map ?g (frames (added w (handleStreamingResponse w req)))) @ [done_frame]"
    unfolding frames_handleStreaming by (rule a)
  show ?thesis
    using writer_calls_handleStreaming[of w req] full
    by (simp add: stream_headers_def done_frame_def)
qed

theorem chunk_writes_flushed_witness:
  "writer_calls (added example_world (handleStreamingResponse example_world example_request))
     = [SetHeader ''Content-Type'' ''text/event-stream'',
        SetHeader ''Cache-Control'' ''no-cache'',
        SetHeader ''Connection'' ''keep-alive'']
       @ concat (map (\<lambda>c. [Write (Data c), Flush])
                     (frames (added example_world
                        (handleStreamingResponse example_world example_request))))
       @ [Write (Literal (''data: [DONE]'' @ [CHR 0x0A, CHR 0x0A]))]"
  using chunk_writes_flushed[of example_world example_request]
  by (simp add: example_world_def)

section \<open>The claims about the completions handler\<close>

text \<open>
  C5 as it is stated fails. A \<^verbatim>\<open>GET\<close> request whose header says \<^verbatim>\<open>gzip\<close> and whose
  body is no gzip stream is not answered 405: the handler creates the gzip reader before it
  looks at the method, and answers the failure of that with 400.
\<close>

theorem non_post_decompressed_counterexample:
  "Method get_gzip_request \<noteq> ''POST''
   \<and> writer_calls (added example_world
         (handleChatCompletion example_lib example_world get_gzip_request))
       \<noteq> [HttpError ''Method not allowed'' 405]
   \<and> added example_world (handleChatCompletion example_lib example_world get_gzip_request)
       = [HttpError ''Failed to decompress request body'' 400]"
  by (simp add: handleChatCompletion_cases get_gzip_request_def example_lib_def sample_json_def sample_gzip_def
      writer_calls_def)

text \<open>
  C5, amended. For every request whose method is not \<^verbatim>\<open>POST\<close>, the handler answers 405
  and the JSON decoder has no part in the answer, unless the content encoding is
  \<^verbatim>\<open>gzip\<close> and the gzip reader cannot be created from the body: then it answers 400. With
  the \<^verbatim>\<open>gzip\<close> encoding the gzip reader is created before the method is checked, and
  closed after the answer.
\<close>

theorem non_post_rejected:
  assumes "Method r \<noteq> ''POST''"
  shows "added w (handleChatCompletion lib w r) =
     (if ContentEncoding r = ''gzip'' then
        (case gzip_NewReader lib (Body r) of
           None \<Rightarrow> [HttpError ''Failed to decompress request body'' 400]
         | Some gzipReader \<Rightarrow> [HttpError ''Method not allowed'' 405, CloseGzip])
      else [HttpError ''Method not allowed'' 405])"
  using assms
  by (simp add: handleChatCompletion_cases processRequest_cases split: option.splits)

theorem non_post_rejected_witness:
  "Method get_request \<noteq> ''POST''
   \<and> added example_world (handleChatCompletion example_lib example_world get_request)
       = [HttpError ''Method not allowed'' 405]"
  using non_post_rejected[of get_request example_world example_lib]
  by (simp add: get_request_def)

text \<open>
  C7. Let one request carry the header \<^verbatim>\<open>gzip\<close> and a body that is the gzip compression of
  the body of a second request, that is, the gzip reader over the first body yields the second
  body; let the second request not carry the header, and the method be the same. Then decoding
  gives the same for both, and the handler does the same for both, but for the closing of the
  gzip reader at the end: the same calls on the response writer, the same frames, the same
  envelope.
\<close>

theorem gzip_transparent:
  assumes "ContentEncoding rz = ''gzip''"
    and "gzip_NewReader lib (Body rz) = Some (Body rp)"
    and "ContentEncoding rp \<noteq> ''gzip''"
    and "Method rz = Method rp"
  shows "decoded lib rz = decoded lib rp
    \<and> handleChatCompletion lib w rz = emit CloseGzip (handleChatCompletion lib w rp)
    \<and> writer_calls (added w (handleChatCompletion lib w rz))
        = writer_calls (added w (handleChatCompletion lib w rp))
    \<and> frames (added w (handleChatCompletion lib w rz))
        = frames (added w (handleChatCompletion lib w rp))
    \<and> envelopes (added w (handleChatCompletion lib w rz))
        = envelopes (added w (handleChatCompletion lib w rp))"
proof -
  have p: "processRequest lib w (rz\<lparr>Body := Body rp\<rparr>) = processRequest lib w rp"
    using assms(4) by (simp add: processRequest_def)
  have h: "handleChatCompletion lib w rz = emit CloseGzip (handleChatCompletion lib w rp)"
    using assms by (simp add: handleChatCompletion_def p)
  have a: "added w (handleChatCompletion lib w rz)
             = added w (handleChatCompletion lib w rp) @ [CloseGzip]"
    unfolding h by (rule added_emit[OF trace_handleChatCompletion])
  have e: "envelopes (xs @ [CloseGzip]) = envelopes xs" for xs
    by (induction xs rule: envelopes.induct) simp_all
  have d: "decoded lib rz = decoded lib rp"
    using assms by (simp add: decoded_def)
  have c: "writer_calls (added w (handleChatCompletion lib w rz))
        = writer_calls (added w (handleChatCompletion lib w rp))"
    by (simp add: a) (simp add: writer_calls_def)
  have f: "frames (added w (handleChatCompletion lib w rz))
        = frames (added w (handleChatCompletion lib w rp))"
    by (simp add: a)
  have v: "envelopes (added w (handleChatCompletion lib w rz))
        = envelopes (added w (handleChatCompletion lib w rp))"
    by (simp add: a e)
  show ?thesis
    using d h c f v by blast
qed

theorem gzip_transparent_witness:
  "ContentEncoding gzip_request = ''gzip''
   \<and> gzip_NewReader example_lib (Body gzip_request) = Some (Body plain_request)
   \<and> ContentEncoding plain_request \<noteq> ''gzip''
   \<and> Method gzip_request = Method plain_request
   \<and> decoded example_lib plain_request = Some example_request
   \<and> decoded example_lib gzip_request = Some example_request
   \<and> frames (added example_world (handleChatCompletion example_lib example_world gzip_request))
      = frames (added example_world (handleChatCompletion example_lib example_world plain_request))"
proof -
  have h: "ContentEncoding gzip_request = ''gzip''"
    "gzip_NewReader example_lib (Body gzip_request) = Some (Body plain_request)"
    "ContentEncoding plain_request \<noteq> ''gzip''"
    "Method gzip_request = Method plain_request"
    by (simp_all add: gzip_request_def plain_request_def example_lib_def sample_json_def sample_gzip_def)
  have d: "decoded example_lib plain_request = Some example_request"
    by (simp add: decoded_def plain_request_def example_lib_def sample_json_def sample_gzip_def)
  from gzip_transparent[OF h, of example_world] h d show ?thesis by metis
qed

text \<open>
  C8 as it is stated fails. A \<^verbatim>\<open>GET\<close> request whose body does not decode is answered
  405, not 400: the method is checked before the body is decoded.
\<close>

theorem non_post_undecodable_counterexample:
  "decoded example_lib get_request = None
   \<and> writer_calls (added example_world
        (handleChatCompletion example_lib example_world get_request))
       = [HttpError ''Method not allowed'' 405]"
  by (simp add: handleChatCompletion_cases processRequest_cases get_request_def
      example_lib_def sample_json_def sample_gzip_def decoded_def writer_calls_def)

text \<open>
  C8, amended. For every \<^verbatim>\<open>POST\<close> request whose body fails to decode, in the gzip reader
  or in the JSON decoder, the handler answers 400, with this one call on the response writer;
  it writes no frame and no envelope, and draws nothing from the random source: the request
  ends at the failure.
\<close>

theorem undecodable_rejected:
  assumes "Method r = ''POST''" and "decoded lib r = None"
  shows "(\<exists>msg. writer_calls (added w (handleChatCompletion lib w r)) = [HttpError msg 400])
    \<and> frames (added w (handleChatCompletion lib w r)) = []
    \<and> envelopes (added w (handleChatCompletion lib w r)) = []
    \<and> tape (handleChatCompletion lib w r) = tape w"
proof -
  have "added w (handleChatCompletion lib w r) = [HttpError ''Failed to decompress request body'' 400]
      \<or> added w (handleChatCompletion lib w r) = [HttpError ''Invalid request body'' 400]
      \<or> added w (handleChatCompletion lib w r) = [HttpError ''Invalid request body'' 400, CloseGzip]"
    using assms
    by (auto simp: handleChatCompletion_cases processRequest_cases decoded_def
        split: option.splits if_splits)
  then have a: "(\<exists>msg. writer_calls (added w (handleChatCompletion lib w r)) = [HttpError msg 400])
    \<and> frames (added w (handleChatCompletion lib w r)) = []
    \<and> envelopes (added w (handleChatCompletion lib w r)) = []"
    by (auto simp: writer_calls_def)
  have "tape (handleChatCompletion lib w r) = tape w"
    using assms
    by (auto simp: handleChatCompletion_def processRequest_def decoded_def
        split: option.splits if_splits)
  with a show ?thesis by simp
qed

theorem undecodable_rejected_witness:
  "Method bad_request = ''POST'' \<and> decoded example_lib bad_request = None
   \<and> (\<exists>msg. writer_calls (added example_world
                (handleChatCompletion example_lib example_world bad_request))
              = [HttpError msg 400])
   \<and> frames (added example_world
        (handleChatCompletion example_lib example_world bad_request)) = []"
proof -
  have h: "Method bad_request = ''POST''" "decoded example_lib bad_request = None"
    by (simp_all add: bad_request_def decoded_def example_lib_def sample_json_def sample_gzip_def)
  from undecodable_rejected[OF h, of example_world] h show ?thesis by simp
qed

section \<open>The claim about the combined fault injection\<close>

lemma rand_all_run_cases:
  "rand_all_run lib w r (a, b) =
     (if a mod 10 < 5 then
        (if b mod 10 < 5 then emit (HttpError ''Random error'' 500) w
         else handleChatCompletion lib w r)
      else handleChatCompletion lib (emit (Sleep (b mod 5000)) w) r)"
  by (simp add: rand_all_run_def handleRandom_def handleRandomFail_def Intn_def Let_def emit_def)

lemma outcome_delegate:
  "rand_all_outcome (added w (handleChatCompletion lib w r)) = PlainDelegation"
  by (simp add: handleChatCompletion_cases processRequest_cases split: option.splits)

lemma added_after_sleep:
  "added w (handleChatCompletion lib (emit (Sleep d) w) r)
     = Sleep d # added (emit (Sleep d) w) (handleChatCompletion lib (emit (Sleep d) w) r)"
proof -
  from trace_handleChatCompletion[of lib "emit (Sleep d) w" r]
  have "trace (handleChatCompletion lib (emit (Sleep d) w) r)
          = trace w @ Sleep d
            # added (emit (Sleep d) w) (handleChatCompletion lib (emit (Sleep d) w) r)"
    by simp
  then show ?thesis by (rule added_append)
qed

lemma outcome_branch:
  "rand_all_outcome (added w (rand_all_run lib w r ab)) = branch ab"
  by (cases ab) (simp add: rand_all_run_cases branch_def outcome_delegate added_after_sleep)

lemma length_draws: "length draws = 100"
  by (simp add: draws_def)

lemma count_branch:
  "length (filter (\<lambda>ab. branch ab = HardFailure) draws) = 25"
  "length (filter (\<lambda>ab. branch ab = DelayedDelegation) draws) = 50"
  "length (filter (\<lambda>ab. branch ab = PlainDelegation) draws) = 25"
  by code_simp+

lemma rand_all_prob_values:
  "rand_all_prob lib w r HardFailure = 1 / 4"
  "rand_all_prob lib w r DelayedDelegation = 1 / 2"
  "rand_all_prob lib w r PlainDelegation = 1 / 4"
  by (simp_all add: rand_all_prob_def outcome_branch count_branch length_draws)

text \<open>
  C4 as it is stated fails. With the two draws independent and uniform, the delay followed by
  the delegation has probability 1/2 and the delegation without delay has probability 1/4;
  neither is within 1/10 of 3/8.
\<close>

theorem rand_all_distribution_counterexample:
  "rand_all_prob example_lib example_world plain_request DelayedDelegation = 1 / 2
   \<and> rand_all_prob example_lib example_world plain_request PlainDelegation = 1 / 4
   \<and> \<not> \<bar>rand_all_prob example_lib example_world plain_request DelayedDelegation - 3 / 8\<bar> < 1 / 10
   \<and> \<not> \<bar>rand_all_prob example_lib example_world plain_request PlainDelegation - 3 / 8\<bar> < 1 / 10"
  by (simp add: rand_all_prob_values)

text \<open>
  C4, amended. With the two draws independent and uniform, the combined route fails hard
  (the injected error 500, nothing else) with probability 1/4, sleeps a random time and then
  delegates to the completions handler with probability 1/2, and delegates without delay with
  probability 1/4.
\<close>

theorem rand_all_distribution:
  "rand_all_prob lib w r HardFailure = 1 / 4
   \<and> rand_all_prob lib w r DelayedDelegation = 1 / 2
   \<and> rand_all_prob lib w r PlainDelegation = 1 / 4
   \<and> (\<forall>(a, b) \<in> set draws.
         case rand_all_outcome (added w (rand_all_run lib w r (a, b))) of
           HardFailure \<Rightarrow>
             added w (rand_all_run lib w r (a, b)) = [HttpError ''Random error'' 500]
         | DelayedDelegation \<Rightarrow>
             rand_all_run lib w r (a, b) = handleChatCompletion lib (emit (Sleep b) w) r
         | PlainDelegation \<Rightarrow>
             rand_all_run lib w r (a, b) = handleChatCompletion lib w r)"
proof -
  have "case rand_all_outcome (added w (rand_all_run lib w r (a, b))) of
           HardFailure \<Rightarrow>
             added w (rand_all_run lib w r (a, b)) = [HttpError ''Random error'' 500]
         | DelayedDelegation \<Rightarrow>
             rand_all_run lib w r (a, b) = handleChatCompletion lib (emit (Sleep b) w) r
         | PlainDelegation \<Rightarrow>
             rand_all_run lib w r (a, b) = handleChatCompletion lib w r"
    if "(a, b) \<in> set draws" for a b
  proof -
    from that have "b < 10" by (simp add: draws_def)
    then have "b mod 5000 = b" by simp
    then show ?thesis
      unfolding outcome_branch by (simp add: branch_def rand_all_run_cases)
  qed
  then show ?thesis
    by (auto simp: rand_all_prob_values)
qed

theorem rand_all_distribution_witness:
  "(7, 2) \<in> set draws
   \<and> rand_all_outcome (added example_world
         (rand_all_run example_lib example_world plain_request (7, 2))) = DelayedDelegation
   \<and> rand_all_run example_lib example_world plain_request (7, 2)
       = handleChatCompletion example_lib (emit (Sleep 2) example_world) plain_request"
proof -
  have m: "(7, 2) \<in> set draws"
    by (simp add: draws_def)
  have o: "rand_all_outcome (added example_world
         (rand_all_run example_lib example_world plain_request (7, 2))) = DelayedDelegation"
    by (simp add: outcome_branch branch_def)
  from rand_all_distribution[of example_lib example_world plain_request] m
  have "case rand_all_outcome (added example_world
               (rand_all_run example_lib example_world plain_request (7, 2))) of
           HardFailure \<Rightarrow>
             added example_world (rand_all_run example_lib example_world plain_request (7, 2))
               = [HttpError ''Random error'' 500]
         | DelayedDelegation \<Rightarrow>
             rand_all_run example_lib example_world plain_request (7, 2)
               = handleChatCompletion example_lib (emit (Sleep 2) example_world) plain_request
         | PlainDelegation \<Rightarrow>
             rand_all_run example_lib example_world plain_request (7, 2)
               = handleChatCompletion example_lib example_world plain_request"
    by blast
  with m o show ?thesis by simp
qed

end
